theory Spec2Isabelle
  imports Main "HOL-Library.Word"
begin

section \<open>The MQTT to Supabase bridge (mqtt-streamer.py)\<close>

text \<open>
  The bridge subscribes to two MQTT topics, decodes every message as JSON and stores the
  messages of the data topic as rows of the table \<open>stream_data\<close>. The model below follows
  the Python source function by function. The libraries the source calls (the UTF-8
  decoder of \<open>bytes.decode\<close>, \<open>json.loads\<close>, the Supabase client, the clock, the MQTT
  client) are parameters; every call the bridge makes on them is recorded in a trace.
\<close>

subsection \<open>Values, exceptions and effects\<close>

type_synonym byte = "8 word"

text \<open>
  What \<open>json.loads\<close> returns: \<open>None\<close>, a bool, an int, a float, a str, a list or a
  dict with string keys. A dict is an association list in insertion order, read with
  \<open>map_of\<close>; the keys of a dict are distinct, and on a list that repeats a key \<open>map_of\<close>
  reads the first entry. A float is carried as mantissa and exponent; the bridge never
  computes with it.
\<close>

datatype json =
    JNull
  | JBool bool
  | JInt int
  | JFloat int int
  | JStr string
  | JArr "json list"
  | JObj "(string \<times> json) list"

text \<open>
  The exceptions of class \<open>Exception\<close>, split by the classes the handlers of the source
  name: \<open>KeyError\<close> and \<open>json.JSONDecodeError\<close>; \<open>TypeError\<close>, \<open>AttributeError\<close> and
  \<open>UnicodeDecodeError\<close> are what the operations of the model raise themselves, and
  \<open>OtherError\<close> is any further instance of \<open>Exception\<close> that is an instance of none of
  these (whatever the storage client or the MQTT client raises). The argument is the
  exception's message. \<open>KeyboardInterrupt\<close> and \<open>SystemExit\<close> are not instances of
  \<open>Exception\<close> and not values of this type: they are the operator's interrupt, which
  \<open>main\<close> handles.
\<close>

datatype exn =
    KeyError string
  | TypeError string
  | AttributeError string
  | UnicodeDecodeError string
  | JSONDecodeError string
  | OtherError string

datatype level = Debug | Info | Error

text \<open>
  The reason code of the MQTT client library. The callbacks are registered with
  \<open>CallbackAPIVersion.VERSION2\<close>, so the connect callback receives an object of the class
  \<open>ReasonCode\<close> as \<open>rc\<close>, not an integer: the object holds the packet type and the
  numeric value of the code, it compares equal to an integer exactly when its value is
  that integer, and it is not a number, so the conversion \<open>%d\<close> cannot format it.
\<close>

record ReasonCode =
  packetType :: int
  reason_value :: int

datatype logarg =
    ArgStr string
  | ArgInt int
  | ArgCode ReasonCode
  | ArgJson json
  | ArgExn exn
  | ArgBytes "byte list"
  | ArgNames "string list"

text \<open>
  The effects of the bridge, in the order they happen: a call of a logger with its level,
  format string and arguments (\<open>ArgExn e\<close> is \<open>str(e)\<close>); \<open>LogExc e\<close> is
  \<open>logger.error(traceback.format_exc())\<close> while \<open>e\<close> is being handled; \<open>Insert t row\<close>
  is \<open>client.table(t).insert(row).execute()\<close>; \<open>Subscribe\<close>, \<open>Connect\<close> and \<open>LoopForever\<close>
  are the calls on the MQTT client and \<open>Sleep\<close> is \<open>time.sleep\<close>. A \<open>Log\<close> event is
  the call of the logger's method: with the level \<open>logging.INFO\<close> that the module
  configures, the handlers write the lines of level \<open>Info\<close> and \<open>Error\<close> and drop those of
  level \<open>Debug\<close>.
\<close>

datatype event =
    Log level string "logarg list"
  | LogExc exn
  | Insert string "(string \<times> json) list"
  | Subscribe "(string \<times> int) list"
  | Connect string int
  | LoopForever
  | Sleep nat

datatype TopicType = DATA | DEBUG

fun topic_value :: "TopicType \<Rightarrow> string" where
  "topic_value DATA = ''device/data''"
| "topic_value DEBUG = ''device/debug''"

definition all_TopicType :: "TopicType list" where
  "all_TopicType = [DATA, DEBUG]"

record MQTTConfig =
  broker :: string
  port :: int
  topics :: "(string \<times> int) list"

record StreamData =
  stream_id :: json
  frame_id :: json
  device_id :: json
  timestamp :: json
  timeout :: json
  image_data :: json
  metadata :: json
  created_at :: string

record MQTTMessage =
  topic :: string
  payload :: "byte list"

text \<open>
  The libraries: \<open>decode\<close> is \<open>bytes.decode()\<close>, \<open>loads\<close> is \<open>json.loads\<close> and
  \<open>execute_insert\<close> is one insert on the Supabase client, which raises or returns and
  may change the state \<open>'db\<close> of the store either way.
\<close>

record 'db env =
  decode :: "byte list \<Rightarrow> exn + string"
  loads :: "string \<Rightarrow> exn + json"
  execute_insert :: "'db \<Rightarrow> string \<Rightarrow> (string \<times> json) list \<Rightarrow> (exn + unit) \<times> 'db"

record 'db world =
  db :: 'db
  trace :: "event list"

definition emit :: "event list \<Rightarrow> 'db world \<Rightarrow> 'db world" where
  "emit es w = w\<lparr>trace := trace w @ es\<rparr>"

definition bind_exn :: "exn + 'a \<Rightarrow> ('a \<Rightarrow> exn + 'b) \<Rightarrow> exn + 'b" where
  "bind_exn m f = (case m of Inl e \<Rightarrow> Inl e | Inr x \<Rightarrow> f x)"

subsection \<open>Python's dict operations on a decoded value\<close>

text \<open>\<open>obj[k]\<close>: a dict without the key raises \<open>KeyError(k)\<close>, anything else raises \<open>TypeError\<close>.\<close>

fun subscript :: "json \<Rightarrow> string \<Rightarrow> exn + json" where
  "subscript (JObj kvs) k =
     (case map_of kvs k of None \<Rightarrow> Inl (KeyError k) | Some v \<Rightarrow> Inr v)"
| "subscript (JArr xs) k = Inl (TypeError ''list indices must be integers or slices, not str'')"
| "subscript (JStr s) k = Inl (TypeError ''string indices must be integers'')"
| "subscript v k = Inl (TypeError ''object is not subscriptable'')"

text \<open>\<open>obj.get(k, d)\<close>: only a dict has the method.\<close>

fun get_default :: "json \<Rightarrow> string \<Rightarrow> json \<Rightarrow> exn + json" where
  "get_default (JObj kvs) k d = Inr (case map_of kvs k of None \<Rightarrow> d | Some v \<Rightarrow> v)"
| "get_default v k d = Inl (AttributeError ''object has no attribute get'')"

subsection \<open>StreamData and DatabaseManager.store_data\<close>

definition asdict :: "StreamData \<Rightarrow> (string \<times> json) list" where
  "asdict d =
     [(''stream_id'', stream_id d), (''frame_id'', frame_id d), (''device_id'', device_id d),
      (''timestamp'', timestamp d), (''timeout'', timeout d), (''image_data'', image_data d),
      (''metadata'', metadata d), (''created_at'', JStr (created_at d))]"

text \<open>
  The body of the \<open>try\<close> is the insert and the info line; \<open>except Exception\<close> takes every
  exception, logs it and returns \<open>False\<close>. The result is a sum so that an exception
  leaving the method would be a value \<open>Inl\<close>.
\<close>

definition store_data :: "'db env \<Rightarrow> StreamData \<Rightarrow> 'db world \<Rightarrow> (exn + bool) \<times> 'db world" where
  "store_data E d w =
     (let w1 = emit [Insert ''stream_data'' (asdict d)] w in
      case execute_insert E (db w) ''stream_data'' (asdict d) of
        (Inr u, s) \<Rightarrow>
          (Inr True,
           emit [Log Info ''Successfully stored frame %s for stream %s''
                   [ArgJson (frame_id d), ArgJson (stream_id d)]] (w1\<lparr>db := s\<rparr>))
      | (Inl e, s) \<Rightarrow>
          (Inr False,
           emit [Log Error ''Error storing data: %s'' [ArgExn e], LogExc e] (w1\<lparr>db := s\<rparr>)))"

subsection \<open>MQTTBridge\<close>

text \<open>
  \<open>__init__\<close>: the topics are the values of the enumeration, each with QoS 1. The connect
  callback tests \<open>rc == 0\<close> on the reason code it receives, and on any other code calls
  the logger with the format \<open>%d\<close> and the reason code as argument.
\<close>

definition mqtt_config :: "string \<Rightarrow> int \<Rightarrow> MQTTConfig" where
  "mqtt_config b p = \<lparr>broker = b, port = p, topics = map (\<lambda>t. (topic_value t, 1)) all_TopicType\<rparr>"

definition on_connect :: "MQTTConfig \<Rightarrow> ReasonCode \<Rightarrow> 'db world \<Rightarrow> 'db world" where
  "on_connect cfg rc w =
     (if reason_value rc = 0 then
        emit [Log Info ''Connected to MQTT broker successfully'' [],
              Subscribe (topics cfg),
              Log Info ''Subscribed to topics: %s'' [ArgNames (map fst (topics cfg))]] w
      else
        emit [Log Error ''Failed to connect to MQTT broker with code %d'' [ArgCode rc]] w)"

text \<open>
  The expression \<open>StreamData(stream_id=obj["stream_id"], ...)\<close>: the keyword arguments
  are evaluated in the order written, so the first key that fails decides the exception;
  \<open>created_at\<close> is the clock reading \<open>now\<close> of the default factory.
\<close>

definition build_stream_data :: "string \<Rightarrow> json \<Rightarrow> exn + StreamData" where
  "build_stream_data now obj =
     bind_exn (subscript obj ''stream_id'') (\<lambda>a.
     bind_exn (subscript obj ''frame_id'') (\<lambda>b.
     bind_exn (subscript obj ''device_id'') (\<lambda>c.
     bind_exn (subscript obj ''timestamp'') (\<lambda>t.
     bind_exn (subscript obj ''timeout'') (\<lambda>u.
     bind_exn (subscript obj ''data'') (\<lambda>i.
     bind_exn (get_default obj ''metadata'' (JObj [])) (\<lambda>m.
       Inr \<lparr>stream_id = a, frame_id = b, device_id = c, timestamp = t, timeout = u,
            image_data = i, metadata = m, created_at = now\<rparr>)))))))"

text \<open>The two \<open>except\<close> clauses of \<open>_handle_data_message\<close>, tried in order.\<close>

fun data_except :: "exn \<Rightarrow> 'db world \<Rightarrow> (exn + unit) \<times> 'db world" where
  "data_except (KeyError k) w =
     (Inr (), emit [Log Error ''Missing required field in payload: %s'' [ArgExn (KeyError k)]] w)"
| "data_except e w =
     (Inr (), emit [Log Error ''Error handling data message: %s'' [ArgExn e]] w)"

definition handle_data_message ::
  "'db env \<Rightarrow> string \<Rightarrow> json \<Rightarrow> 'db world \<Rightarrow> (exn + unit) \<times> 'db world" where
  "handle_data_message E now obj w =
     (case build_stream_data now obj of
        Inl e \<Rightarrow> data_except e w
      | Inr d \<Rightarrow>
          (case store_data E d w of
             (Inl e, w') \<Rightarrow> data_except e w'
           | (Inr True, w') \<Rightarrow>
               (Inr (), emit [Log Info ''Successfully processed frame %s'' [ArgJson (frame_id d)]] w')
           | (Inr False, w') \<Rightarrow> (Inr (), w')))"

definition handle_debug_message :: "json \<Rightarrow> 'db world \<Rightarrow> (exn + unit) \<times> 'db world" where
  "handle_debug_message obj w =
     (case get_default obj ''meta'' (JObj []) of
        Inl e \<Rightarrow> (Inl e, w)
      | Inr v \<Rightarrow> (Inr (), emit [Log Debug ''Debug data: %s'' [ArgJson v]] w))"

text \<open>The two \<open>except\<close> clauses of \<open>_on_message\<close>, tried in order.\<close>

fun message_except :: "byte list \<Rightarrow> exn \<Rightarrow> 'db world \<Rightarrow> (exn + unit) \<times> 'db world" where
  "message_except raw (JSONDecodeError m) w =
     (Inr (), emit [Log Error ''Failed to decode JSON message: %s'' [ArgExn (JSONDecodeError m)],
                    Log Debug ''Raw message: %s'' [ArgBytes raw]] w)"
| "message_except raw e w =
     (Inr (), emit [Log Error ''Error processing message: %s'' [ArgExn e], LogExc e] w)"

text \<open>The body of the \<open>try\<close> of \<open>_on_message\<close> after the first debug line.\<close>

definition message_body ::
  "'db env \<Rightarrow> string \<Rightarrow> MQTTMessage \<Rightarrow> 'db world \<Rightarrow> (exn + unit) \<times> 'db world" where
  "message_body E now msg w =
     (case bind_exn (decode E (payload msg)) (loads E) of
        Inl e \<Rightarrow> (Inl e, w)
      | Inr obj \<Rightarrow>
          if topic msg = topic_value DATA then handle_data_message E now obj w
          else if topic msg = topic_value DEBUG then handle_debug_message obj w
          else (Inr (), w))"

definition on_message ::
  "'db env \<Rightarrow> string \<Rightarrow> MQTTMessage \<Rightarrow> 'db world \<Rightarrow> (exn + unit) \<times> 'db world" where
  "on_message E now msg w =
     (case message_body E now msg
             (emit [Log Debug ''Received message on topic: %s'' [ArgStr (topic msg)]] w) of
        (Inl e, w') \<Rightarrow> message_except (payload msg) e w'
      | (Inr u, w') \<Rightarrow> (Inr u, w'))"

subsection \<open>The session and the outer loop\<close>

text \<open>
  What the MQTT client hands to the callbacks during one call of \<open>loop_forever\<close>: a
  connect acknowledgment with its reason code, or a message together with the clock
  reading at the time it is processed.
\<close>

datatype delivery = ConnAck ReasonCode | Message string MQTTMessage

fun dispatch :: "'db env \<Rightarrow> MQTTConfig \<Rightarrow> delivery \<Rightarrow> 'db world \<Rightarrow> (exn + unit) \<times> 'db world" where
  "dispatch E cfg (ConnAck rc) w = (Inr (), on_connect cfg rc w)"
| "dispatch E cfg (Message now msg) w = on_message E now msg w"

text \<open>
  The client's \<open>loop_forever\<close>, as the boundary of the specification has it: it calls the
  callbacks synchronously, one delivery after the other, and blocks until the session
  ends, by returning (\<open>None\<close>) or by raising (\<open>Some e\<close>). An exception leaving a callback
  leaves the loop.
\<close>

fun loop_forever ::
  "'db env \<Rightarrow> MQTTConfig \<Rightarrow> delivery list \<Rightarrow> exn option \<Rightarrow> 'db world \<Rightarrow> (exn + unit) \<times> 'db world" where
  "loop_forever E cfg [] ending w = (case ending of None \<Rightarrow> (Inr (), w) | Some e \<Rightarrow> (Inl e, w))"
| "loop_forever E cfg (x # xs) ending w =
     (case dispatch E cfg x w of
        (Inl e, w') \<Rightarrow> (Inl e, w')
      | (Inr u, w') \<Rightarrow> loop_forever E cfg xs ending w')"

text \<open>
  What the broker and the network do to one pass of the loop of \<open>start\<close>: the call of
  \<open>connect\<close> raises, or it returns and a session follows. A handshake that the broker
  refuses is a session with a connect acknowledgment whose reason code is not 0: it
  raises nothing by itself. \<open>raised\<close> is the exception, if any, that ends the \<open>try\<close> of the
  pass: that of \<open>connect\<close> or that of \<open>loop_forever\<close>.
\<close>

datatype attempt = ConnectRaises exn | Session "delivery list" "exn option"



text \<open>One pass through the body of \<open>while True\<close>: the \<open>try\<close> and its \<open>except Exception\<close>.\<close>

definition start_body :: "'db env \<Rightarrow> MQTTConfig \<Rightarrow> attempt \<Rightarrow> 'db world \<Rightarrow> (exn + unit) \<times> 'db world" where
  "start_body E cfg a w =
     (let w1 = emit [Log Info ''Connecting to MQTT broker at %s:%d''
                       [ArgStr (broker cfg), ArgInt (port cfg)],
                     Connect (broker cfg) (port cfg)] w in
      case a of
        ConnectRaises e \<Rightarrow> (Inl e, w1)
      | Session xs ending \<Rightarrow>
          loop_forever E cfg xs ending (emit [Log Info ''Starting MQTT loop...'' [], LoopForever] w1))"

definition start_pass :: "'db env \<Rightarrow> MQTTConfig \<Rightarrow> attempt \<Rightarrow> 'db world \<Rightarrow> (exn + unit) \<times> 'db world" where
  "start_pass E cfg a w =
     (case start_body E cfg a w of
        (Inl e, w') \<Rightarrow>
          (Inr (), emit [Log Error ''MQTT connection error: %s'' [ArgExn e], LogExc e,
                         Log Info ''Retrying connection in 5 seconds...'' [], Sleep 5] w')
      | (Inr u, w') \<Rightarrow> (Inr u, w'))"

text \<open>
  \<open>start\<close> is \<open>while True\<close> around that pass, with no \<open>break\<close> and no \<open>return\<close>. The list
  gives what happens to the first passes; when it is used up the loop is still
  \<open>Running\<close>. \<open>Raised e\<close> would be an exception leaving \<open>start\<close>.
\<close>

datatype outcome = Running | Raised exn

fun start :: "'db env \<Rightarrow> MQTTConfig \<Rightarrow> attempt list \<Rightarrow> 'db world \<Rightarrow> outcome \<times> 'db world" where
  "start E cfg [] w = (Running, w)"
| "start E cfg (a # as) w =
     (case start_pass E cfg a w of
        (Inl e, w') \<Rightarrow> (Raised e, w')
      | (Inr u, w') \<Rightarrow> start E cfg as w')"

subsection \<open>Reading a trace\<close>

fun is_insert :: "event \<Rightarrow> bool" where
  "is_insert (Insert t r) = True"
| "is_insert e = False"

fun is_log :: "event \<Rightarrow> bool" where
  "is_log (Log l f xs) = True"
| "is_log (LogExc e) = True"
| "is_log e = False"

fun is_subscribe :: "event \<Rightarrow> bool" where
  "is_subscribe (Subscribe ts) = True"
| "is_subscribe e = False"



text \<open>
  Which logger calls write a line. The module sets the level \<open>logging.INFO\<close>, so a call at
  debug level writes nothing. A handler formats the record as \<open>msg % args\<close> when there are
  arguments; the format strings of the source use the conversions \<open>%s\<close>, which takes any
  object, and \<open>%d\<close>, which takes a number. When the formatting raises, the handler reports
  the error on the standard error stream and writes no line; the logger call itself
  returns.
\<close>

fun enabled :: "level \<Rightarrow> bool" where
  "enabled Debug = False"
| "enabled Info = True"
| "enabled Error = True"

fun is_number :: "logarg \<Rightarrow> bool" where
  "is_number (ArgInt n) = True"
| "is_number a = False"

definition accepts :: "char \<Rightarrow> logarg \<Rightarrow> bool" where
  "accepts c a = (c = CHR ''s'' \<or> c = CHR ''d'' \<and> is_number a)"

fun conversions :: "string \<Rightarrow> string" where
  "conversions (c # d # cs) =
     (if c = CHR ''%'' then d # conversions cs else conversions (d # cs))"
| "conversions cs = []"

definition formats :: "string \<Rightarrow> logarg list \<Rightarrow> bool" where
  "formats f xs = (xs = [] \<or> list_all2 accepts (conversions f) xs)"

fun written :: "event \<Rightarrow> bool" where
  "written (Log l f xs) = (enabled l \<and> formats f xs)"
| "written (LogExc e) = True"
| "written e = False"

text \<open>The keys that \<open>_handle_data_message\<close> subscripts, in the order of evaluation.\<close>

definition required_fields :: "string list" where
  "required_fields = [''stream_id'', ''frame_id'', ''device_id'', ''timestamp'', ''timeout'', ''data'']"




subsection \<open>Test messages and test doubles\<close>

text \<open>
  Concrete inputs for the examples that follow the theorems: the Data-topic messages of
  the scenarios A and B of the specification, a message whose six required values have
  other types than the annotations of \<open>StreamData\<close> say, a Debug-topic message, bytes that
  are text but not JSON, and bytes that are not UTF-8. The decoder \<open>decode_ascii\<close> is
  \<open>bytes.decode\<close> on ASCII input, \<open>loads_table\<close> is \<open>json.loads\<close> on the four JSON
  texts, and \<open>typed_insert\<close> is a store that appends a row when its timeout is an
  integer and raises otherwise. The reason codes are those of a connect acknowledgment
  (packet type 2): \<open>Success\<close> with value 0 and \<open>Not authorized\<close> with value 135.
\<close>

definition scenario_A_text :: string where
  \<open>scenario_A_text = ''{"stream_id":"s1","frame_id":"f1","device_id":"d1","timestamp":"2024-12-03T10:00:00Z","timeout":30,"data":"QUJD"}''\<close>

definition scenario_A_bytes :: "byte list" where
  "scenario_A_bytes =
    [0x7B, 0x22, 0x73, 0x74, 0x72, 0x65, 0x61, 0x6D, 0x5F, 0x69, 0x64, 0x22, 0x3A, 0x22,
     0x73, 0x31, 0x22, 0x2C, 0x22, 0x66, 0x72, 0x61, 0x6D, 0x65, 0x5F, 0x69, 0x64, 0x22,
     0x3A, 0x22, 0x66, 0x31, 0x22, 0x2C, 0x22, 0x64, 0x65, 0x76, 0x69, 0x63, 0x65, 0x5F,
     0x69, 0x64, 0x22, 0x3A, 0x22, 0x64, 0x31, 0x22, 0x2C, 0x22, 0x74, 0x69, 0x6D, 0x65,
     0x73, 0x74, 0x61, 0x6D, 0x70, 0x22, 0x3A, 0x22, 0x32, 0x30, 0x32, 0x34, 0x2D, 0x31,
     0x32, 0x2D, 0x30, 0x33, 0x54, 0x31, 0x30, 0x3A, 0x30, 0x30, 0x3A, 0x30, 0x30, 0x5A,
     0x22, 0x2C, 0x22, 0x74, 0x69, 0x6D, 0x65, 0x6F, 0x75, 0x74, 0x22, 0x3A, 0x33, 0x30,
     0x2C, 0x22, 0x64, 0x61, 0x74, 0x61, 0x22, 0x3A, 0x22, 0x51, 0x55, 0x4A, 0x44, 0x22,
     0x7D]"

definition scenario_B_text :: string where
  \<open>scenario_B_text = ''{"stream_id":"s1","frame_id":"f1"}''\<close>

definition scenario_B_bytes :: "byte list" where
  "scenario_B_bytes =
    [0x7B, 0x22, 0x73, 0x74, 0x72, 0x65, 0x61, 0x6D, 0x5F, 0x69, 0x64, 0x22, 0x3A, 0x22,
     0x73, 0x31, 0x22, 0x2C, 0x22, 0x66, 0x72, 0x61, 0x6D, 0x65, 0x5F, 0x69, 0x64, 0x22,
     0x3A, 0x22, 0x66, 0x31, 0x22, 0x7D]"

definition untyped_text :: string where
  \<open>untyped_text = ''{"stream_id":1,"frame_id":null,"device_id":[],"timestamp":true,"timeout":"soon","data":7}''\<close>

definition untyped_bytes :: "byte list" where
  "untyped_bytes =
    [0x7B, 0x22, 0x73, 0x74, 0x72, 0x65, 0x61, 0x6D, 0x5F, 0x69, 0x64, 0x22, 0x3A, 0x31,
     0x2C, 0x22, 0x66, 0x72, 0x61, 0x6D, 0x65, 0x5F, 0x69, 0x64, 0x22, 0x3A, 0x6E, 0x75,
     0x6C, 0x6C, 0x2C, 0x22, 0x64, 0x65, 0x76, 0x69, 0x63, 0x65, 0x5F, 0x69, 0x64, 0x22,
     0x3A, 0x5B, 0x5D, 0x2C, 0x22, 0x74, 0x69, 0x6D, 0x65, 0x73, 0x74, 0x61, 0x6D, 0x70,
     0x22, 0x3A, 0x74, 0x72, 0x75, 0x65, 0x2C, 0x22, 0x74, 0x69, 0x6D, 0x65, 0x6F, 0x75,
     0x74, 0x22, 0x3A, 0x22, 0x73, 0x6F, 0x6F, 0x6E, 0x22, 0x2C, 0x22, 0x64, 0x61, 0x74,
     0x61, 0x22, 0x3A, 0x37, 0x7D]"

definition debug_text :: string where
  \<open>debug_text = ''{"meta":{"fps":30}}''\<close>

definition debug_bytes :: "byte list" where
  "debug_bytes =
    [0x7B, 0x22, 0x6D, 0x65, 0x74, 0x61, 0x22, 0x3A, 0x7B, 0x22, 0x66, 0x70, 0x73, 0x22,
     0x3A, 0x33, 0x30, 0x7D, 0x7D]"

definition garbage_text :: string where
  \<open>garbage_text = ''not json''\<close>

definition garbage_bytes :: "byte list" where
  "garbage_bytes =
    [0x6E, 0x6F, 0x74, 0x20, 0x6A, 0x73, 0x6F, 0x6E]"

definition decode_ascii :: "byte list \<Rightarrow> exn + string" where
  "decode_ascii bs =
     (if list_all (\<lambda>b. b < 0x80) bs then Inr (map (\<lambda>b. char_of (unat b)) bs)
      else Inl (UnicodeDecodeError ''invalid start byte''))"

definition invalid_bytes :: "byte list" where
  "invalid_bytes = [0xFF, 0xFE]"

definition scenario_A_fields :: "(string \<times> json) list" where
  "scenario_A_fields =
     [(''stream_id'', JStr ''s1''), (''frame_id'', JStr ''f1''), (''device_id'', JStr ''d1''),
      (''timestamp'', JStr ''2024-12-03T10:00:00Z''), (''timeout'', JInt 30),
      (''data'', JStr ''QUJD'')]"

definition scenario_B_fields :: "(string \<times> json) list" where
  "scenario_B_fields = [(''stream_id'', JStr ''s1''), (''frame_id'', JStr ''f1'')]"

definition untyped_fields :: "(string \<times> json) list" where
  "untyped_fields =
     [(''stream_id'', JInt 1), (''frame_id'', JNull), (''device_id'', JArr []),
      (''timestamp'', JBool True), (''timeout'', JStr ''soon''), (''data'', JInt 7)]"

definition debug_fields :: "(string \<times> json) list" where
  "debug_fields = [(''meta'', JObj [(''fps'', JInt 30)])]"

definition loads_table :: "string \<Rightarrow> exn + json" where
  "loads_table s =
     (if s = scenario_A_text then Inr (JObj scenario_A_fields)
      else if s = scenario_B_text then Inr (JObj scenario_B_fields)
      else if s = untyped_text then Inr (JObj untyped_fields)
      else if s = debug_text then Inr (JObj debug_fields)
      else Inl (JSONDecodeError ''Expecting value: line 1 column 1 (char 0)''))"

definition typed_insert ::
  "(string \<times> json) list list \<Rightarrow> string \<Rightarrow> (string \<times> json) list \<Rightarrow>
     (exn + unit) \<times> (string \<times> json) list list" where
  "typed_insert rows t row =
     (case map_of row ''timeout'' of
        Some (JInt n) \<Rightarrow> (Inr (), rows @ [row])
      | _ \<Rightarrow> (Inl (OtherError ''invalid input syntax for type integer''), rows))"

definition demo_env :: "(string \<times> json) list list env" where
  "demo_env = \<lparr>decode = decode_ascii, loads = loads_table, execute_insert = typed_insert\<rparr>"

definition success_code :: ReasonCode where
  "success_code = \<lparr>packetType = 2, reason_value = 0\<rparr>"

definition not_authorized :: ReasonCode where
  "not_authorized = \<lparr>packetType = 2, reason_value = 135\<rparr>"

definition demo_world :: "(string \<times> json) list list world" where
  "demo_world = \<lparr>db = [], trace = []\<rparr>"

definition data_message :: "byte list \<Rightarrow> MQTTMessage" where
  "data_message bs = \<lparr>topic = ''device/data'', payload = bs\<rparr>"

definition debug_message :: "byte list \<Rightarrow> MQTTMessage" where
  "debug_message bs = \<lparr>topic = ''device/debug'', payload = bs\<rparr>"

definition scenario_A_row :: "string \<Rightarrow> (string \<times> json) list" where
  "scenario_A_row now =
     [(''stream_id'', JStr ''s1''), (''frame_id'', JStr ''f1''), (''device_id'', JStr ''d1''),
      (''timestamp'', JStr ''2024-12-03T10:00:00Z''), (''timeout'', JInt 30),
      (''image_data'', JStr ''QUJD''), (''metadata'', JObj []), (''created_at'', JStr now)]"

definition untyped_row :: "string \<Rightarrow> (string \<times> json) list" where
  "untyped_row now =
     [(''stream_id'', JInt 1), (''frame_id'', JNull), (''device_id'', JArr []),
      (''timestamp'', JBool True), (''timeout'', JStr ''soon''),
      (''image_data'', JInt 7), (''metadata'', JObj []), (''created_at'', JStr now)]"

section \<open>Properties\<close>

subsection \<open>How the handlers and the loops unfold\<close>

lemma store_data_cases:
  "store_data E d w =
     (case execute_insert E (db w) ''stream_data'' (asdict d) of
        (Inr u, s) \<Rightarrow>
          (Inr True,
           \<lparr>db = s, trace = trace w @
              [Insert ''stream_data'' (asdict d),
               Log Info ''Successfully stored frame %s for stream %s''
                 [ArgJson (frame_id d), ArgJson (stream_id d)]]\<rparr>)
      | (Inl e, s) \<Rightarrow>
          (Inr False,
           \<lparr>db = s, trace = trace w @
              [Insert ''stream_data'' (asdict d),
               Log Error ''Error storing data: %s'' [ArgExn e], LogExc e]\<rparr>))"
  by (simp add: store_data_def emit_def Let_def split: prod.splits sum.splits)

lemma bind_exn_Inl [simp]: "bind_exn (Inl e) f = Inl e"
  by (simp add: bind_exn_def)

lemma bind_exn_Inr [simp]: "bind_exn (Inr x) f = f x"
  by (simp add: bind_exn_def)

lemma trace_emit [simp]: "trace (emit es w) = trace w @ es"
  by (simp add: emit_def)

lemma db_emit [simp]: "db (emit es w) = db w"
  by (simp add: emit_def)

lemma emit_emit: "emit ys (emit xs w) = emit (xs @ ys) w"
  by (simp add: emit_def)

lemma build_stream_data_present:
  assumes "map_of kvs ''stream_id'' = Some a" and "map_of kvs ''frame_id'' = Some b"
    and "map_of kvs ''device_id'' = Some c" and "map_of kvs ''timestamp'' = Some t"
    and "map_of kvs ''timeout'' = Some u" and "map_of kvs ''data'' = Some i"
  shows "build_stream_data now (JObj kvs) =
    Inr \<lparr>stream_id = a, frame_id = b, device_id = c, timestamp = t, timeout = u,
         image_data = i,
         metadata = (case map_of kvs ''metadata'' of None \<Rightarrow> JObj [] | Some m \<Rightarrow> m),
         created_at = now\<rparr>"
  using assms by (simp add: build_stream_data_def)

lemma build_stream_data_missing:
  assumes "find (\<lambda>k. map_of kvs k = None) required_fields = Some m"
  shows "build_stream_data now (JObj kvs) = Inl (KeyError m)"
  using assms
  by (auto simp: build_stream_data_def required_fields_def split: if_splits)

lemma first_missing_exists:
  assumes "k \<in> set required_fields" and "map_of kvs k = None"
  shows "\<exists>m. find (\<lambda>k. map_of kvs k = None) required_fields = Some m \<and>
             m \<in> set required_fields \<and> map_of kvs m = None"
proof (cases "find (\<lambda>k. map_of kvs k = None) required_fields")
  case None
  with assms show ?thesis by (auto simp: find_None_iff)
next
  case (Some m)
  then show ?thesis by (auto simp: find_Some_iff)
qed

lemma data_except_returns: "fst (data_except e w) = Inr ()"
  by (cases e) simp_all


lemma store_data_world:
  "\<exists>es. trace (snd (store_data E d w)) = trace w @ Insert ''stream_data'' (asdict d) # es \<and> list_all is_log es"
  by (auto simp: store_data_cases split: prod.splits sum.splits)

lemma store_data_returns: "\<exists>b. fst (store_data E d w) = Inr b"
  by (auto simp: store_data_cases split: prod.splits sum.splits)

lemma store_data_db:
  "db (snd (store_data E d w)) = snd (execute_insert E (db w) ''stream_data'' (asdict d))"
  by (auto simp: store_data_cases split: prod.splits sum.splits)

lemma handle_data_message_built:
  assumes "build_stream_data now obj = Inr d"
  shows "handle_data_message E now obj w =
    (Inr (), if fst (store_data E d w) = Inr True
             then emit [Log Info ''Successfully processed frame %s'' [ArgJson (frame_id d)]]
                    (snd (store_data E d w))
             else snd (store_data E d w))"
  using assms store_data_returns [of E d w]
  by (auto simp: handle_data_message_def split: prod.splits sum.splits bool.splits)

lemma handle_data_message_failed:
  assumes "build_stream_data now obj = Inl e"
  shows "handle_data_message E now obj w = data_except e w"
  using assms by (simp add: handle_data_message_def)

lemma handle_data_message_returns: "fst (handle_data_message E now obj w) = Inr ()"
  by (cases "build_stream_data now obj")
     (simp_all add: handle_data_message_failed handle_data_message_built data_except_returns)

lemma message_except_returns: "fst (message_except raw e w) = Inr ()"
  by (cases e) simp_all

lemma on_message_returns: "fst (on_message E now msg w) = Inr ()"
  by (auto simp: on_message_def message_except_returns split: prod.splits sum.splits)




lemma log_no_insert: "list_all is_log es \<Longrightarrow> filter is_insert es = []"
proof (induction es)
  case Nil
  then show ?case by simp
next
  case (Cons x xs)
  then show ?case by (cases x) simp_all
qed



lemma handle_debug_message_db: "db (snd (handle_debug_message obj w)) = db w"
  by (cases "get_default obj ''meta'' (JObj [])") (simp_all add: handle_debug_message_def)





lemma dispatch_returns: "fst (dispatch E cfg x w) = Inr ()"
  by (cases x) (simp_all add: on_message_returns)


lemma loop_forever_Cons:
  "loop_forever E cfg (x # xs) ending w = loop_forever E cfg xs ending (snd (dispatch E cfg x w))"
  using dispatch_returns [of E cfg x w]
  by (cases "dispatch E cfg x w") simp

lemma loop_forever_result:
  "fst (loop_forever E cfg xs ending w) = (case ending of None \<Rightarrow> Inr () | Some e \<Rightarrow> Inl e)"
proof (induction xs arbitrary: w)
  case Nil
  then show ?case by (simp split: option.splits)
next
  case (Cons x xs)
  then show ?case by (simp only: loop_forever_Cons)
qed

lemma loop_forever_world:
  "snd (loop_forever E cfg xs ending w) = snd (loop_forever E cfg xs None w)"
proof (induction xs arbitrary: w)
  case Nil
  then show ?case by (simp split: option.splits)
next
  case (Cons x xs)
  then show ?case by (simp only: loop_forever_Cons)
qed

lemma loop_forever_append:
  "loop_forever E cfg (xs @ ys) ending w =
     loop_forever E cfg ys ending (snd (loop_forever E cfg xs None w))"
proof (induction xs arbitrary: w)
  case Nil
  then show ?case by simp
next
  case (Cons x xs)
  then show ?case by (simp only: loop_forever_Cons append_Cons)
qed




lemma start_pass_returns: "fst (start_pass E cfg a w) = Inr ()"
  by (auto simp: start_pass_def split: prod.splits sum.splits)






lemma start_Cons:
  "start E cfg (a # as) w = start E cfg as (snd (start_pass E cfg a w))"
  using start_pass_returns [of E cfg a w]
  by (cases "start_pass E cfg a w") simp


lemma start_append:
  "start E cfg (as @ bs) w = start E cfg bs (snd (start E cfg as w))"
proof (induction as arbitrary: w)
  case Nil
  then show ?case by simp
next
  case (Cons a as)
  then show ?case by (simp only: start_Cons append_Cons)
qed





lemma on_message_data:
  assumes "topic msg = ''device/data''"
    and "bind_exn (decode E (payload msg)) (loads E) = Inr obj"
  shows "on_message E now msg w =
     handle_data_message E now obj
       (emit [Log Debug ''Received message on topic: %s'' [ArgStr ''device/data'']] w)"
proof -
  let ?w0 = "emit [Log Debug ''Received message on topic: %s'' [ArgStr ''device/data'']] w"
  have "fst (handle_data_message E now obj ?w0) = Inr ()"
    by (rule handle_data_message_returns)
  then obtain w' where "handle_data_message E now obj ?w0 = (Inr (), w')"
    by (cases "handle_data_message E now obj ?w0") simp
  with assms show ?thesis
    by (simp add: on_message_def message_body_def)
qed

lemma handle_data_message_inserts:
  assumes "build_stream_data now obj = Inr d"
  shows "filter is_insert (trace (snd (handle_data_message E now obj w))) =
           filter is_insert (trace w) @ [Insert ''stream_data'' (asdict d)]"
    and "db (snd (handle_data_message E now obj w)) =
           snd (execute_insert E (db w) ''stream_data'' (asdict d))"
proof -
  obtain es where es: "trace (snd (store_data E d w)) = trace w @ Insert ''stream_data'' (asdict d) # es"
    and logs: "list_all is_log es"
    using store_data_world by blast
  from logs have "filter is_insert es = []" by (rule log_no_insert)
  with es assms
  show "filter is_insert (trace (snd (handle_data_message E now obj w))) =
           filter is_insert (trace w) @ [Insert ''stream_data'' (asdict d)]"
    by (simp add: handle_data_message_built)
  from assms
  show "db (snd (handle_data_message E now obj w)) =
           snd (execute_insert E (db w) ''stream_data'' (asdict d))"
    by (simp add: handle_data_message_built store_data_db)
qed

lemma on_message_debug:
  assumes "topic msg = ''device/debug''"
    and "bind_exn (decode E (payload msg)) (loads E) = Inr obj"
  shows "on_message E now msg w =
     (case get_default obj ''meta'' (JObj []) of
        Inl e \<Rightarrow>
          (Inr (), emit [Log Debug ''Received message on topic: %s'' [ArgStr ''device/debug''],
                         Log Error ''Error processing message: %s'' [ArgExn e], LogExc e] w)
      | Inr v \<Rightarrow>
          (Inr (), emit [Log Debug ''Received message on topic: %s'' [ArgStr ''device/debug''],
                         Log Debug ''Debug data: %s'' [ArgJson v]] w))"
proof (cases "get_default obj ''meta'' (JObj [])")
  case (Inl e)
  then have "\<exists>m. e = AttributeError m"
    by (cases obj) auto
  with Inl assms show ?thesis
    by (auto simp: on_message_def message_body_def handle_debug_message_def emit_emit)
next
  case (Inr v)
  with assms show ?thesis
    by (simp add: on_message_def message_body_def handle_debug_message_def emit_emit)
qed

lemma on_message_undecodable:
  assumes "bind_exn (decode E (payload msg)) (loads E) = Inl e"
  shows "on_message E now msg w =
     (Inr (), emit (Log Debug ''Received message on topic: %s'' [ArgStr (topic msg)] #
                    (case e of
                       JSONDecodeError m \<Rightarrow>
                         [Log Error ''Failed to decode JSON message: %s'' [ArgExn e],
                          Log Debug ''Raw message: %s'' [ArgBytes (payload msg)]]
                     | _ \<Rightarrow> [Log Error ''Error processing message: %s'' [ArgExn e], LogExc e])) w)"
  using assms
  by (cases e) (simp_all add: on_message_def message_body_def emit_emit)

subsection \<open>The test doubles on the test messages\<close>

lemma decode_scenario_A: "decode demo_env scenario_A_bytes = Inr scenario_A_text"
proof -
  have "decode_ascii scenario_A_bytes = Inr scenario_A_text" by code_simp
  then show ?thesis by (simp add: demo_env_def)
qed

lemma decode_scenario_B: "decode demo_env scenario_B_bytes = Inr scenario_B_text"
proof -
  have "decode_ascii scenario_B_bytes = Inr scenario_B_text" by code_simp
  then show ?thesis by (simp add: demo_env_def)
qed

lemma decode_untyped: "decode demo_env untyped_bytes = Inr untyped_text"
proof -
  have "decode_ascii untyped_bytes = Inr untyped_text" by code_simp
  then show ?thesis by (simp add: demo_env_def)
qed

lemma decode_debug: "decode demo_env debug_bytes = Inr debug_text"
proof -
  have "decode_ascii debug_bytes = Inr debug_text" by code_simp
  then show ?thesis by (simp add: demo_env_def)
qed

lemma decode_garbage: "decode demo_env garbage_bytes = Inr garbage_text"
proof -
  have "decode_ascii garbage_bytes = Inr garbage_text" by code_simp
  then show ?thesis by (simp add: demo_env_def)
qed

lemma decode_invalid:
  "decode demo_env invalid_bytes = Inl (UnicodeDecodeError ''invalid start byte'')"
  by (simp add: demo_env_def decode_ascii_def invalid_bytes_def)

lemma loads_scenario_A: "loads demo_env scenario_A_text = Inr (JObj scenario_A_fields)"
  by (simp add: demo_env_def loads_table_def)

lemma loads_scenario_B: "loads demo_env scenario_B_text = Inr (JObj scenario_B_fields)"
  by (simp add: demo_env_def loads_table_def scenario_A_text_def scenario_B_text_def)

lemma loads_untyped: "loads demo_env untyped_text = Inr (JObj untyped_fields)"
  by (simp add: demo_env_def loads_table_def scenario_A_text_def scenario_B_text_def
        untyped_text_def)

lemma loads_debug: "loads demo_env debug_text = Inr (JObj debug_fields)"
  by (simp add: demo_env_def loads_table_def scenario_A_text_def scenario_B_text_def
        untyped_text_def debug_text_def)

lemma loads_garbage:
  "loads demo_env garbage_text = Inl (JSONDecodeError ''Expecting value: line 1 column 1 (char 0)'')"
  by (simp add: demo_env_def loads_table_def scenario_A_text_def scenario_B_text_def
        untyped_text_def debug_text_def garbage_text_def)

lemma insert_scenario_A:
  "execute_insert demo_env rows ''stream_data'' (scenario_A_row now) =
     (Inr (), rows @ [scenario_A_row now])"
  by (simp add: demo_env_def typed_insert_def scenario_A_row_def)

lemma insert_untyped:
  "execute_insert demo_env rows ''stream_data'' (untyped_row now) =
     (Inl (OtherError ''invalid input syntax for type integer''), rows)"
  by (simp add: demo_env_def typed_insert_def untyped_row_def)

lemma build_scenario_A:
  "build_stream_data now (JObj scenario_A_fields) =
     Inr \<lparr>stream_id = JStr ''s1'', frame_id = JStr ''f1'', device_id = JStr ''d1'',
          timestamp = JStr ''2024-12-03T10:00:00Z'', timeout = JInt 30, image_data = JStr ''QUJD'',
          metadata = JObj [], created_at = now\<rparr>"
  by (simp add: build_stream_data_def scenario_A_fields_def)

lemma build_untyped:
  "build_stream_data now (JObj untyped_fields) =
     Inr \<lparr>stream_id = JInt 1, frame_id = JNull, device_id = JArr [], timestamp = JBool True,
          timeout = JStr ''soon'', image_data = JInt 7, metadata = JObj [], created_at = now\<rparr>"
  by (simp add: build_stream_data_def untyped_fields_def)

lemma on_message_untyped:
  "on_message demo_env now (data_message untyped_bytes) \<lparr>db = rows, trace = es\<rparr> =
     (Inr (), \<lparr>db = rows, trace = es @
        [Log Debug ''Received message on topic: %s'' [ArgStr ''device/data''],
         Insert ''stream_data'' (untyped_row now),
         Log Error ''Error storing data: %s''
           [ArgExn (OtherError ''invalid input syntax for type integer'')],
         LogExc (OtherError ''invalid input syntax for type integer'')]\<rparr>)"
proof -
  have dec: "bind_exn (decode demo_env (payload (data_message untyped_bytes))) (loads demo_env) =
      Inr (JObj untyped_fields)"
    by (simp add: data_message_def decode_untyped loads_untyped)
  have top: "topic (data_message untyped_bytes) = ''device/data''"
    by (simp add: data_message_def)
  have row: "asdict \<lparr>stream_id = JInt 1, frame_id = JNull, device_id = JArr [],
       timestamp = JBool True, timeout = JStr ''soon'', image_data = JInt 7, metadata = JObj [],
       created_at = now\<rparr> = untyped_row now"
    by (simp add: asdict_def untyped_row_def)
  show ?thesis
    by (simp add: on_message_data [OF top dec] handle_data_message_built [OF build_untyped]
          store_data_cases row insert_untyped emit_def)
qed

lemma on_message_garbage:
  "on_message demo_env now \<lparr>topic = tp, payload = garbage_bytes\<rparr> \<lparr>db = rows, trace = es\<rparr> =
     (Inr (), \<lparr>db = rows, trace = es @
        [Log Debug ''Received message on topic: %s'' [ArgStr tp],
         Log Error ''Failed to decode JSON message: %s''
           [ArgExn (JSONDecodeError ''Expecting value: line 1 column 1 (char 0)'')],
         Log Debug ''Raw message: %s'' [ArgBytes garbage_bytes]]\<rparr>)"
proof -
  have "bind_exn (decode demo_env (payload \<lparr>topic = tp, payload = garbage_bytes\<rparr>))
      (loads demo_env) = Inl (JSONDecodeError ''Expecting value: line 1 column 1 (char 0)'')"
    by (simp add: decode_garbage loads_garbage)
  then show ?thesis
    by (simp add: on_message_undecodable emit_def)
qed

subsection \<open>The claims\<close>

text \<open>
  C1. A message on the data topic whose decoded object has the six keys \<open>stream_id\<close>,
  \<open>frame_id\<close>, \<open>device_id\<close>, \<open>timestamp\<close>, \<open>timeout\<close> and \<open>data\<close>: the record built
  holds the six values as they are, the value of \<open>metadata\<close> when the key is there and the
  empty dict when it is not, and the clock reading as \<open>created_at\<close>. The callback
  returns, the call makes one insert, of the row of that record, and the store is left
  as that single insert leaves it.
\<close>

theorem data_message_stored_once:
  assumes "topic msg = ''device/data''"
    and "decode E (payload msg) = Inr s" and "loads E s = Inr (JObj kvs)"
    and "map_of kvs ''stream_id'' = Some a" and "map_of kvs ''frame_id'' = Some b"
    and "map_of kvs ''device_id'' = Some c" and "map_of kvs ''timestamp'' = Some t"
    and "map_of kvs ''timeout'' = Some u" and "map_of kvs ''data'' = Some i"
  shows "(let d = \<lparr>stream_id = a, frame_id = b, device_id = c, timestamp = t, timeout = u,
                   image_data = i,
                   metadata = (case map_of kvs ''metadata'' of None \<Rightarrow> JObj [] | Some m \<Rightarrow> m),
                   created_at = now\<rparr>
          in build_stream_data now (JObj kvs) = Inr d \<and>
             fst (on_message E now msg w) = Inr () \<and>
             filter is_insert (trace (snd (on_message E now msg w))) =
               filter is_insert (trace w) @ [Insert ''stream_data'' (asdict d)] \<and>
             db (snd (on_message E now msg w)) =
               snd (execute_insert E (db w) ''stream_data'' (asdict d)))"
proof -
  let ?d = "\<lparr>stream_id = a, frame_id = b, device_id = c, timestamp = t, timeout = u,
             image_data = i,
             metadata = (case map_of kvs ''metadata'' of None \<Rightarrow> JObj [] | Some m \<Rightarrow> m),
             created_at = now\<rparr>"
  have built: "build_stream_data now (JObj kvs) = Inr ?d"
    using assms(4-9) by (rule build_stream_data_present)
  have dec: "bind_exn (decode E (payload msg)) (loads E) = Inr (JObj kvs)"
    using assms(2,3) by simp
  note step = on_message_data [OF assms(1) dec]
  have "filter is_insert (trace (snd (on_message E now msg w))) =
          filter is_insert (trace w) @ [Insert ''stream_data'' (asdict ?d)]"
    by (simp add: step handle_data_message_inserts(1) [OF built])
  moreover have "db (snd (on_message E now msg w)) =
          snd (execute_insert E (db w) ''stream_data'' (asdict ?d))"
    by (simp add: step handle_data_message_inserts(2) [OF built])
  ultimately show ?thesis
    using built by (simp add: Let_def on_message_returns)
qed

theorem data_message_stored_once_witness:
  "topic (data_message scenario_A_bytes) = ''device/data'' \<and>
   decode demo_env (payload (data_message scenario_A_bytes)) = Inr scenario_A_text \<and>
   loads demo_env scenario_A_text = Inr (JObj scenario_A_fields) \<and>
   map_of scenario_A_fields ''timeout'' = Some (JInt 30) \<and>
   map_of scenario_A_fields ''metadata'' = None \<and>
   fst (on_message demo_env ''2024-12-03T10:00:01'' (data_message scenario_A_bytes) demo_world) =
     Inr () \<and>
   filter is_insert (trace (snd (on_message demo_env ''2024-12-03T10:00:01''
       (data_message scenario_A_bytes) demo_world))) =
     [Insert ''stream_data'' (scenario_A_row ''2024-12-03T10:00:01'')] \<and>
   db (snd (on_message demo_env ''2024-12-03T10:00:01''
       (data_message scenario_A_bytes) demo_world)) =
     [scenario_A_row ''2024-12-03T10:00:01'']"
proof -
  have h1: "topic (data_message scenario_A_bytes) = ''device/data''"
    by (simp add: data_message_def)
  have h2: "decode demo_env (payload (data_message scenario_A_bytes)) = Inr scenario_A_text"
    by (simp add: data_message_def decode_scenario_A)
  have h3: "loads demo_env scenario_A_text = Inr (JObj scenario_A_fields)"
    by (rule loads_scenario_A)
  have k1: "map_of scenario_A_fields ''stream_id'' = Some (JStr ''s1'')"
    and k2: "map_of scenario_A_fields ''frame_id'' = Some (JStr ''f1'')"
    and k3: "map_of scenario_A_fields ''device_id'' = Some (JStr ''d1'')"
    and k4: "map_of scenario_A_fields ''timestamp'' = Some (JStr ''2024-12-03T10:00:00Z'')"
    and k5: "map_of scenario_A_fields ''timeout'' = Some (JInt 30)"
    and k6: "map_of scenario_A_fields ''data'' = Some (JStr ''QUJD'')"
    and k7: "map_of scenario_A_fields ''metadata'' = None"
    by (simp_all add: scenario_A_fields_def)
  have row: "asdict \<lparr>stream_id = JStr ''s1'', frame_id = JStr ''f1'', device_id = JStr ''d1'',
       timestamp = JStr ''2024-12-03T10:00:00Z'', timeout = JInt 30, image_data = JStr ''QUJD'',
       metadata = JObj [], created_at = ''2024-12-03T10:00:01''\<rparr> =
     scenario_A_row ''2024-12-03T10:00:01''"
    by (simp add: asdict_def scenario_A_row_def)
  from data_message_stored_once [OF h1 h2 h3 k1 k2 k3 k4 k5 k6,
      of "''2024-12-03T10:00:01''" demo_world]
  show ?thesis
    using h1 h2 h3 k5 k7
    by (simp add: Let_def row insert_scenario_A demo_world_def)
qed

text \<open>
  C2. A message on the data topic whose decoded object lacks at least one required key:
  building the record raises \<open>KeyError\<close> for the first required key that is absent, so no
  record exists; the callback logs that key as the missing field and returns with the
  store untouched and no insert in the trace.
\<close>

theorem missing_field_rejected:
  assumes "topic msg = ''device/data''"
    and "decode E (payload msg) = Inr s" and "loads E s = Inr (JObj kvs)"
    and "k \<in> set required_fields" and "map_of kvs k = None"
  shows "\<exists>m. m \<in> set required_fields \<and> map_of kvs m = None \<and>
             find (\<lambda>f. map_of kvs f = None) required_fields = Some m \<and>
             build_stream_data now (JObj kvs) = Inl (KeyError m) \<and>
             on_message E now msg w =
               (Inr (), emit [Log Debug ''Received message on topic: %s'' [ArgStr ''device/data''],
                              Log Error ''Missing required field in payload: %s'' [ArgExn (KeyError m)]] w)"
proof -
  obtain m where m: "find (\<lambda>f. map_of kvs f = None) required_fields = Some m"
    and mem: "m \<in> set required_fields" and none: "map_of kvs m = None"
    using first_missing_exists [OF assms(4,5)] by blast
  have failed: "build_stream_data now (JObj kvs) = Inl (KeyError m)"
    using m by (rule build_stream_data_missing)
  have dec: "bind_exn (decode E (payload msg)) (loads E) = Inr (JObj kvs)"
    using assms(2,3) by simp
  have "on_message E now msg w =
      (Inr (), emit [Log Debug ''Received message on topic: %s'' [ArgStr ''device/data''],
                     Log Error ''Missing required field in payload: %s'' [ArgExn (KeyError m)]] w)"
    by (simp add: on_message_data [OF assms(1) dec] handle_data_message_failed [OF failed] emit_emit)
  with m mem none failed show ?thesis by blast
qed

theorem missing_field_rejected_witness:
  "topic (data_message scenario_B_bytes) = ''device/data'' \<and>
   decode demo_env (payload (data_message scenario_B_bytes)) = Inr scenario_B_text \<and>
   loads demo_env scenario_B_text = Inr (JObj scenario_B_fields) \<and>
   ''timeout'' \<in> set required_fields \<and> map_of scenario_B_fields ''timeout'' = None \<and>
   on_message demo_env ''2024-12-03T10:00:01'' (data_message scenario_B_bytes) demo_world =
     (Inr (), \<lparr>db = [], trace =
        [Log Debug ''Received message on topic: %s'' [ArgStr ''device/data''],
         Log Error ''Missing required field in payload: %s'' [ArgExn (KeyError ''device_id'')]]\<rparr>)"
proof -
  have h1: "topic (data_message scenario_B_bytes) = ''device/data''"
    by (simp add: data_message_def)
  have h2: "decode demo_env (payload (data_message scenario_B_bytes)) = Inr scenario_B_text"
    by (simp add: data_message_def decode_scenario_B)
  have h3: "loads demo_env scenario_B_text = Inr (JObj scenario_B_fields)"
    by (rule loads_scenario_B)
  have h4: "''timeout'' \<in> set required_fields"
    by (simp add: required_fields_def)
  have h5: "map_of scenario_B_fields ''timeout'' = None"
    by (simp add: scenario_B_fields_def)
  have first: "find (\<lambda>f. map_of scenario_B_fields f = None) required_fields = Some ''device_id''"
    by (simp add: required_fields_def scenario_B_fields_def)
  from missing_field_rejected [OF h1 h2 h3 h4 h5, of "''2024-12-03T10:00:01''" demo_world]
  obtain m where "find (\<lambda>f. map_of scenario_B_fields f = None) required_fields = Some m"
    and "on_message demo_env ''2024-12-03T10:00:01'' (data_message scenario_B_bytes) demo_world =
      (Inr (), emit [Log Debug ''Received message on topic: %s'' [ArgStr ''device/data''],
                     Log Error ''Missing required field in payload: %s'' [ArgExn (KeyError m)]]
                 demo_world)"
    by blast
  with first h1 h2 h3 h4 h5 show ?thesis
    by (simp add: emit_def demo_world_def)
qed

text \<open>
  C3. Every message on the debug topic, whatever its bytes: the callback returns, the
  store is unchanged and every event of the call is a logger call. When the bytes decode
  to an object, the events are the two debug lines, the second with the value of \<open>meta\<close>
  or the empty dict.
\<close>

theorem debug_message_ignored:
  assumes "topic msg = ''device/debug''"
  shows "fst (on_message E now msg w) = Inr () \<and>
         db (snd (on_message E now msg w)) = db w \<and>
         (\<exists>es. trace (snd (on_message E now msg w)) = trace w @ es \<and> list_all is_log es) \<and>
         (\<forall>kvs. bind_exn (decode E (payload msg)) (loads E) = Inr (JObj kvs) \<longrightarrow>
            on_message E now msg w =
              (Inr (), emit [Log Debug ''Received message on topic: %s'' [ArgStr ''device/debug''],
                             Log Debug ''Debug data: %s''
                               [ArgJson (case map_of kvs ''meta'' of None \<Rightarrow> JObj [] | Some v \<Rightarrow> v)]] w))"
proof (cases "bind_exn (decode E (payload msg)) (loads E)")
  case (Inl e)
  show ?thesis
    by (cases e) (simp_all add: on_message_undecodable [OF Inl] Inl)
next
  case (Inr obj)
  show ?thesis
    by (cases "get_default obj ''meta'' (JObj [])")
       (auto simp: on_message_debug [OF assms Inr] Inr)
qed

theorem debug_message_ignored_witness:
  "topic (debug_message debug_bytes) = ''device/debug'' \<and>
   on_message demo_env ''2024-12-03T10:00:01'' (debug_message debug_bytes) demo_world =
     (Inr (), \<lparr>db = [], trace =
        [Log Debug ''Received message on topic: %s'' [ArgStr ''device/debug''],
         Log Debug ''Debug data: %s'' [ArgJson (JObj [(''fps'', JInt 30)])]]\<rparr>)"
proof -
  have h1: "topic (debug_message debug_bytes) = ''device/debug''"
    by (simp add: debug_message_def)
  have h2: "bind_exn (decode demo_env (payload (debug_message debug_bytes))) (loads demo_env) =
      Inr (JObj debug_fields)"
    by (simp add: debug_message_def decode_debug loads_debug)
  from debug_message_ignored [OF h1, of demo_env "''2024-12-03T10:00:01''" demo_world] h2
  have "on_message demo_env ''2024-12-03T10:00:01'' (debug_message debug_bytes) demo_world =
      (Inr (), emit [Log Debug ''Received message on topic: %s'' [ArgStr ''device/debug''],
                     Log Debug ''Debug data: %s''
                       [ArgJson (case map_of debug_fields ''meta'' of None \<Rightarrow> JObj []
                                 | Some v \<Rightarrow> v)]] demo_world)"
    by blast
  with h1 show ?thesis
    by (simp add: emit_def demo_world_def debug_fields_def)
qed

text \<open>
  C4. \<open>store_data\<close> returns \<open>True\<close> or \<open>False\<close> for every record, every store and every
  state of the store, and never lets an exception out: it returns \<open>False\<close> exactly when
  the insert raised and \<open>True\<close> exactly when the insert returned.
\<close>

theorem store_data_never_raises:
  "(fst (store_data E d w) = Inr True \<or> fst (store_data E d w) = Inr False) \<and>
   (fst (store_data E d w) = Inr False) =
     isl (fst (execute_insert E (db w) ''stream_data'' (asdict d))) \<and>
   (fst (store_data E d w) = Inr True) =
     (fst (execute_insert E (db w) ''stream_data'' (asdict d)) = Inr ())"
  by (auto simp: store_data_cases split: prod.splits sum.splits)

theorem store_data_never_raises_witness:
  "fst (store_data demo_env
      \<lparr>stream_id = JInt 1, frame_id = JNull, device_id = JArr [], timestamp = JBool True,
       timeout = JStr ''soon'', image_data = JInt 7, metadata = JObj [],
       created_at = ''2024-12-03T10:00:01''\<rparr> demo_world) = Inr False \<and>
   fst (store_data demo_env
      \<lparr>stream_id = JStr ''s1'', frame_id = JStr ''f1'', device_id = JStr ''d1'',
       timestamp = JStr ''2024-12-03T10:00:00Z'', timeout = JInt 30, image_data = JStr ''QUJD'',
       metadata = JObj [], created_at = ''2024-12-03T10:00:01''\<rparr> demo_world) = Inr True"
proof -
  let ?bad = "\<lparr>stream_id = JInt 1, frame_id = JNull, device_id = JArr [], timestamp = JBool True,
       timeout = JStr ''soon'', image_data = JInt 7, metadata = JObj [],
       created_at = ''2024-12-03T10:00:01''\<rparr>"
  let ?good = "\<lparr>stream_id = JStr ''s1'', frame_id = JStr ''f1'', device_id = JStr ''d1'',
       timestamp = JStr ''2024-12-03T10:00:00Z'', timeout = JInt 30, image_data = JStr ''QUJD'',
       metadata = JObj [], created_at = ''2024-12-03T10:00:01''\<rparr>"
  have bad: "asdict ?bad = untyped_row ''2024-12-03T10:00:01''"
    by (simp add: asdict_def untyped_row_def)
  have good: "asdict ?good = scenario_A_row ''2024-12-03T10:00:01''"
    by (simp add: asdict_def scenario_A_row_def)
  from store_data_never_raises [of demo_env ?bad demo_world]
  have "fst (store_data demo_env ?bad demo_world) = Inr False"
    by (simp only: bad insert_untyped fst_conv sum.disc simp_thms)
  moreover from store_data_never_raises [of demo_env ?good demo_world]
  have "fst (store_data demo_env ?good demo_world) = Inr True"
    by (simp only: good insert_scenario_A fst_conv simp_thms)
  ultimately show ?thesis by simp
qed

text \<open>
  C5. The message callback returns normally for every topic, every payload and every
  store. A session therefore hands every delivery to its callback: after any deliveries
  \<open>xs\<close>, with whatever decode errors, missing fields and failed inserts, the next message
  is processed by \<open>on_message\<close> in the world that \<open>xs\<close> left, and when it is a data
  message with the six required keys its row is inserted, once.
\<close>

theorem message_errors_isolated:
  "fst (on_message E now msg w) = Inr () \<and>
   fst (loop_forever E cfg xs None w) = Inr () \<and>
   snd (loop_forever E cfg (xs @ [Message t nxt]) ending w) =
     snd (on_message E t nxt (snd (loop_forever E cfg xs None w))) \<and>
   (topic nxt = ''device/data'' \<and>
    bind_exn (decode E (payload nxt)) (loads E) = Inr obj \<and>
    build_stream_data t obj = Inr d \<longrightarrow>
      filter is_insert (trace (snd (loop_forever E cfg (xs @ [Message t nxt]) ending w))) =
        filter is_insert (trace (snd (loop_forever E cfg xs None w))) @
        [Insert ''stream_data'' (asdict d)] \<and>
      db (snd (loop_forever E cfg (xs @ [Message t nxt]) ending w)) =
        snd (execute_insert E (db (snd (loop_forever E cfg xs None w))) ''stream_data'' (asdict d)))"
proof -
  let ?w' = "snd (loop_forever E cfg xs None w)"
  have step: "snd (loop_forever E cfg (xs @ [Message t nxt]) ending w) = snd (on_message E t nxt ?w')"
    by (simp only: loop_forever_append loop_forever_Cons dispatch.simps)
       (simp split: option.splits)
  have "filter is_insert (trace (snd (on_message E t nxt ?w'))) =
          filter is_insert (trace ?w') @ [Insert ''stream_data'' (asdict d)] \<and>
        db (snd (on_message E t nxt ?w')) =
          snd (execute_insert E (db ?w') ''stream_data'' (asdict d))"
    if "topic nxt = ''device/data''"
      and "bind_exn (decode E (payload nxt)) (loads E) = Inr obj"
      and "build_stream_data t obj = Inr d"
    using that
    by (simp add: on_message_data handle_data_message_inserts)
  with step show ?thesis
    by (simp add: on_message_returns loop_forever_result)
qed

theorem message_errors_isolated_witness:
  "topic (data_message scenario_A_bytes) = ''device/data'' \<and>
   bind_exn (decode demo_env (payload (data_message scenario_A_bytes))) (loads demo_env) =
     Inr (JObj scenario_A_fields) \<and>
   filter is_insert (trace (snd (loop_forever demo_env (mqtt_config ''broker'' 1883)
       [Message ''10:00:01'' (data_message untyped_bytes),
        Message ''10:00:02'' (data_message garbage_bytes)] None demo_world))) =
     [Insert ''stream_data'' (untyped_row ''10:00:01'')] \<and>
   db (snd (loop_forever demo_env (mqtt_config ''broker'' 1883)
       [Message ''10:00:01'' (data_message untyped_bytes),
        Message ''10:00:02'' (data_message garbage_bytes)] None demo_world)) = [] \<and>
   filter is_insert (trace (snd (loop_forever demo_env (mqtt_config ''broker'' 1883)
       ([Message ''10:00:01'' (data_message untyped_bytes),
         Message ''10:00:02'' (data_message garbage_bytes)] @
        [Message ''10:00:03'' (data_message scenario_A_bytes)]) None demo_world))) =
     [Insert ''stream_data'' (untyped_row ''10:00:01''),
      Insert ''stream_data'' (scenario_A_row ''10:00:03'')] \<and>
   db (snd (loop_forever demo_env (mqtt_config ''broker'' 1883)
       ([Message ''10:00:01'' (data_message untyped_bytes),
         Message ''10:00:02'' (data_message garbage_bytes)] @
        [Message ''10:00:03'' (data_message scenario_A_bytes)]) None demo_world)) =
     [scenario_A_row ''10:00:03'']"
proof -
  let ?xs = "[Message ''10:00:01'' (data_message untyped_bytes),
              Message ''10:00:02'' (data_message garbage_bytes)]"
  let ?cfg = "mqtt_config ''broker'' 1883"
  have h1: "topic (data_message scenario_A_bytes) = ''device/data''"
    by (simp add: data_message_def)
  have h2: "bind_exn (decode demo_env (payload (data_message scenario_A_bytes))) (loads demo_env) =
      Inr (JObj scenario_A_fields)"
    by (simp add: data_message_def decode_scenario_A loads_scenario_A)
  have row: "asdict \<lparr>stream_id = JStr ''s1'', frame_id = JStr ''f1'', device_id = JStr ''d1'',
       timestamp = JStr ''2024-12-03T10:00:00Z'', timeout = JInt 30, image_data = JStr ''QUJD'',
       metadata = JObj [], created_at = ''10:00:03''\<rparr> = scenario_A_row ''10:00:03''"
    by (simp add: asdict_def scenario_A_row_def)
  have before: "snd (loop_forever demo_env ?cfg ?xs None demo_world) =
      \<lparr>db = [], trace =
        [Log Debug ''Received message on topic: %s'' [ArgStr ''device/data''],
         Insert ''stream_data'' (untyped_row ''10:00:01''),
         Log Error ''Error storing data: %s''
           [ArgExn (OtherError ''invalid input syntax for type integer'')],
         LogExc (OtherError ''invalid input syntax for type integer''),
         Log Debug ''Received message on topic: %s'' [ArgStr ''device/data''],
         Log Error ''Failed to decode JSON message: %s''
           [ArgExn (JSONDecodeError ''Expecting value: line 1 column 1 (char 0)'')],
         Log Debug ''Raw message: %s'' [ArgBytes garbage_bytes]]\<rparr>"
    by (simp add: demo_world_def on_message_untyped data_message_def [of garbage_bytes]
          on_message_garbage)
  note iso = message_errors_isolated [of demo_env "''10:00:03''" "data_message scenario_A_bytes"
      demo_world ?cfg ?xs "''10:00:03''" "data_message scenario_A_bytes" None
      "JObj scenario_A_fields"
      "\<lparr>stream_id = JStr ''s1'', frame_id = JStr ''f1'', device_id = JStr ''d1'',
        timestamp = JStr ''2024-12-03T10:00:00Z'', timeout = JInt 30, image_data = JStr ''QUJD'',
        metadata = JObj [], created_at = ''10:00:03''\<rparr>"]
  note imp = iso [THEN conjunct2, THEN conjunct2, THEN conjunct2]
  have "filter is_insert (trace (snd (loop_forever demo_env ?cfg
          (?xs @ [Message ''10:00:03'' (data_message scenario_A_bytes)]) None demo_world))) =
        filter is_insert (trace (snd (loop_forever demo_env ?cfg ?xs None demo_world))) @
        [Insert ''stream_data'' (scenario_A_row ''10:00:03'')] \<and>
      db (snd (loop_forever demo_env ?cfg
          (?xs @ [Message ''10:00:03'' (data_message scenario_A_bytes)]) None demo_world)) =
        snd (execute_insert demo_env (db (snd (loop_forever demo_env ?cfg ?xs None demo_world)))
          ''stream_data'' (scenario_A_row ''10:00:03''))"
    using mp [OF imp conjI [OF h1 conjI [OF h2 build_scenario_A]]]
    by (simp only: row)
  then show ?thesis
    using h1 h2 by (simp only: before insert_scenario_A) simp
qed




text \<open>
  C7. With the configuration that \<open>__init__\<close> builds, the connect callback with a reason
  code of value 0 logs the success, subscribes to \<open>device/data\<close> and \<open>device/debug\<close>, both
  with QoS 1, and logs the two topic names; the topics are the values of \<open>TopicType\<close>.
  With any other reason code it subscribes to nothing and calls the logger once, at
  error level. The format of that call is \<open>%d\<close> and its argument is the reason code, which
  is not a number: the call writes no line, so the error line that the claim expects is
  missing from the log.
\<close>

theorem on_connect_subscribes:
  "(reason_value rc = 0 \<longrightarrow>
      on_connect (mqtt_config b p) rc w =
        emit [Log Info ''Connected to MQTT broker successfully'' [],
              Subscribe [(''device/data'', 1), (''device/debug'', 1)],
              Log Info ''Subscribed to topics: %s''
                [ArgNames [''device/data'', ''device/debug'']]] w) \<and>
   set (map fst (topics (mqtt_config b p))) = range topic_value \<and>
   (reason_value rc \<noteq> 0 \<longrightarrow>
      on_connect (mqtt_config b p) rc w =
        emit [Log Error ''Failed to connect to MQTT broker with code %d'' [ArgCode rc]] w \<and>
      filter is_subscribe (trace (on_connect (mqtt_config b p) rc w)) =
        filter is_subscribe (trace w) \<and>
      filter written (trace (on_connect (mqtt_config b p) rc w)) = filter written (trace w))"
proof -
  have "range topic_value = {''device/data'', ''device/debug''}"
  proof
    show "range topic_value \<subseteq> {''device/data'', ''device/debug''}"
    proof
      fix x assume "x \<in> range topic_value"
      then obtain t where "x = topic_value t" by blast
      then show "x \<in> {''device/data'', ''device/debug''}" by (cases t) simp_all
    qed
    have "topic_value DATA \<in> range topic_value" and "topic_value DEBUG \<in> range topic_value"
      by blast+
    then show "{''device/data'', ''device/debug''} \<subseteq> range topic_value" by simp
  qed
  moreover have "\<not> formats ''Failed to connect to MQTT broker with code %d'' [ArgCode rc]"
    by (simp add: formats_def accepts_def)
  ultimately show ?thesis
    by (simp add: on_connect_def mqtt_config_def all_TopicType_def)
qed

theorem on_connect_subscribes_witness:
  "reason_value success_code = 0 \<and>
   on_connect (mqtt_config ''broker'' 1883) success_code demo_world =
     \<lparr>db = [], trace =
        [Log Info ''Connected to MQTT broker successfully'' [],
         Subscribe [(''device/data'', 1), (''device/debug'', 1)],
         Log Info ''Subscribed to topics: %s'' [ArgNames [''device/data'', ''device/debug'']]]\<rparr> \<and>
   reason_value not_authorized = 135 \<and>
   on_connect (mqtt_config ''broker'' 1883) not_authorized demo_world =
     \<lparr>db = [], trace =
        [Log Error ''Failed to connect to MQTT broker with code %d'' [ArgCode not_authorized]]\<rparr> \<and>
   filter is_subscribe (trace (on_connect (mqtt_config ''broker'' 1883) not_authorized demo_world)) =
     [] \<and>
   filter written (trace (on_connect (mqtt_config ''broker'' 1883) not_authorized demo_world)) = []"
proof -
  have h0: "reason_value success_code = 0"
    and h1: "reason_value not_authorized = 135"
    by (simp_all add: success_code_def not_authorized_def)
  from on_connect_subscribes [of success_code "''broker''" 1883 demo_world]
    on_connect_subscribes [of not_authorized "''broker''" 1883 demo_world]
  show ?thesis
    using h0 h1 by (simp add: emit_def demo_world_def formats_def accepts_def)
qed

text \<open>
  C8. A payload on which \<open>bytes.decode\<close> or \<open>json.loads\<close> raises, on any topic: the
  callback returns, the store is unchanged, nothing is inserted, and the events of the
  call are the debug line for the topic and an error line that carries the exception:
  ``Failed to decode JSON message'' with the raw bytes at debug level for a
  \<open>JSONDecodeError\<close>, and ``Error processing message'' with the traceback for anything
  else, such as the \<open>UnicodeDecodeError\<close> of bytes that are not UTF-8.
\<close>

theorem undecodable_message_dropped:
  assumes "decode E (payload msg) = Inl e \<or>
           (\<exists>s. decode E (payload msg) = Inr s \<and> loads E s = Inl e)"
  shows "fst (on_message E now msg w) = Inr () \<and>
         db (snd (on_message E now msg w)) = db w \<and>
         filter is_insert (trace (snd (on_message E now msg w))) = filter is_insert (trace w) \<and>
         trace (snd (on_message E now msg w)) =
           trace w @ Log Debug ''Received message on topic: %s'' [ArgStr (topic msg)] #
             (case e of
                JSONDecodeError m \<Rightarrow>
                  [Log Error ''Failed to decode JSON message: %s'' [ArgExn e],
                   Log Debug ''Raw message: %s'' [ArgBytes (payload msg)]]
              | _ \<Rightarrow> [Log Error ''Error processing message: %s'' [ArgExn e], LogExc e])"
proof -
  from assms have "bind_exn (decode E (payload msg)) (loads E) = Inl e"
    by auto
  then show ?thesis
    by (cases e) (simp_all add: on_message_undecodable)
qed

theorem undecodable_message_dropped_witness:
  "decode demo_env (payload (data_message garbage_bytes)) = Inr garbage_text \<and>
   loads demo_env garbage_text =
     Inl (JSONDecodeError ''Expecting value: line 1 column 1 (char 0)'') \<and>
   trace (snd (on_message demo_env ''10:00:01'' (data_message garbage_bytes) demo_world)) =
     [Log Debug ''Received message on topic: %s'' [ArgStr ''device/data''],
      Log Error ''Failed to decode JSON message: %s''
        [ArgExn (JSONDecodeError ''Expecting value: line 1 column 1 (char 0)'')],
      Log Debug ''Raw message: %s'' [ArgBytes garbage_bytes]] \<and>
   decode demo_env (payload (debug_message invalid_bytes)) =
     Inl (UnicodeDecodeError ''invalid start byte'') \<and>
   trace (snd (on_message demo_env ''10:00:02'' (debug_message invalid_bytes) demo_world)) =
     [Log Debug ''Received message on topic: %s'' [ArgStr ''device/debug''],
      Log Error ''Error processing message: %s'' [ArgExn (UnicodeDecodeError ''invalid start byte'')],
      LogExc (UnicodeDecodeError ''invalid start byte'')]"
proof -
  have g1: "decode demo_env (payload (data_message garbage_bytes)) = Inr garbage_text"
    by (simp add: data_message_def decode_garbage)
  have g2: "loads demo_env garbage_text =
      Inl (JSONDecodeError ''Expecting value: line 1 column 1 (char 0)'')"
    by (rule loads_garbage)
  have i1: "decode demo_env (payload (debug_message invalid_bytes)) =
      Inl (UnicodeDecodeError ''invalid start byte'')"
    by (simp add: debug_message_def decode_invalid)
  have a: "decode demo_env (payload (data_message garbage_bytes)) =
        Inl (JSONDecodeError ''Expecting value: line 1 column 1 (char 0)'') \<or>
      (\<exists>s. decode demo_env (payload (data_message garbage_bytes)) = Inr s \<and>
           loads demo_env s = Inl (JSONDecodeError ''Expecting value: line 1 column 1 (char 0)''))"
    using g1 g2 by simp
  have b: "decode demo_env (payload (debug_message invalid_bytes)) =
        Inl (UnicodeDecodeError ''invalid start byte'') \<or>
      (\<exists>s. decode demo_env (payload (debug_message invalid_bytes)) = Inr s \<and>
           loads demo_env s = Inl (UnicodeDecodeError ''invalid start byte''))"
    using i1 by simp
  from undecodable_message_dropped [OF a, of "''10:00:01''" demo_world]
    undecodable_message_dropped [OF b, of "''10:00:02''" demo_world]
  show ?thesis
    using g1 g2 i1 by (simp add: demo_world_def data_message_def debug_message_def)
qed

text \<open>
  C9. The same payload processed at two times: when the first record is built the second
  is built too, the two agree on \<open>stream_id\<close>, \<open>frame_id\<close>, \<open>device_id\<close>, \<open>timestamp\<close>,
  \<open>timeout\<close>, \<open>image_data\<close> and \<open>metadata\<close>, and each has its own clock reading as
  \<open>created_at\<close>.
\<close>

theorem classification_idempotent:
  assumes "bind_exn (decode E (payload msg)) (loads E) = Inr obj"
    and "build_stream_data t1 obj = Inr d1"
  shows "\<exists>d2. build_stream_data t2 obj = Inr d2 \<and>
           stream_id d2 = stream_id d1 \<and> frame_id d2 = frame_id d1 \<and>
           device_id d2 = device_id d1 \<and> timestamp d2 = timestamp d1 \<and>
           timeout d2 = timeout d1 \<and> image_data d2 = image_data d1 \<and>
           metadata d2 = metadata d1 \<and> created_at d1 = t1 \<and> created_at d2 = t2"
  using assms(2)
  by (auto simp: build_stream_data_def bind_exn_def split: sum.splits)

theorem classification_idempotent_witness:
  "bind_exn (decode demo_env (payload (data_message scenario_A_bytes))) (loads demo_env) =
     Inr (JObj scenario_A_fields) \<and>
   build_stream_data ''10:00:01'' (JObj scenario_A_fields) =
     Inr \<lparr>stream_id = JStr ''s1'', frame_id = JStr ''f1'', device_id = JStr ''d1'',
          timestamp = JStr ''2024-12-03T10:00:00Z'', timeout = JInt 30, image_data = JStr ''QUJD'',
          metadata = JObj [], created_at = ''10:00:01''\<rparr> \<and>
   (\<exists>d2. build_stream_data ''10:00:09'' (JObj scenario_A_fields) = Inr d2 \<and>
      stream_id d2 = JStr ''s1'' \<and> frame_id d2 = JStr ''f1'' \<and> device_id d2 = JStr ''d1'' \<and>
      timestamp d2 = JStr ''2024-12-03T10:00:00Z'' \<and> timeout d2 = JInt 30 \<and>
      image_data d2 = JStr ''QUJD'' \<and> metadata d2 = JObj [] \<and> created_at d2 = ''10:00:09'')"
proof -
  have h1: "bind_exn (decode demo_env (payload (data_message scenario_A_bytes))) (loads demo_env) =
      Inr (JObj scenario_A_fields)"
    by (simp add: data_message_def decode_scenario_A loads_scenario_A)
  note h2 = build_scenario_A [of "''10:00:01''"]
  from classification_idempotent [OF h1 h2, of "''10:00:09''"]
  show ?thesis
    using h1 h2 by simp
qed

text \<open>
  C10. An object with the six required keys, whatever JSON values they hold: the record
  is built with these values unchanged and its row is inserted. The handler returns the
  world of \<open>store_data\<close>, with the line ``Successfully processed frame'' added when the
  store accepted the row: it logs no malformed message of its own.
\<close>

theorem field_types_not_checked:
  assumes "map_of kvs ''stream_id'' = Some a" and "map_of kvs ''frame_id'' = Some b"
    and "map_of kvs ''device_id'' = Some c" and "map_of kvs ''timestamp'' = Some t"
    and "map_of kvs ''timeout'' = Some u" and "map_of kvs ''data'' = Some i"
  shows "\<exists>d. build_stream_data now (JObj kvs) = Inr d \<and>
           stream_id d = a \<and> frame_id d = b \<and> device_id d = c \<and>
           timestamp d = t \<and> timeout d = u \<and> image_data d = i \<and>
           handle_data_message E now (JObj kvs) w =
             (Inr (), if fst (store_data E d w) = Inr True
                      then emit [Log Info ''Successfully processed frame %s'' [ArgJson b]]
                             (snd (store_data E d w))
                      else snd (store_data E d w)) \<and>
           filter is_insert (trace (snd (handle_data_message E now (JObj kvs) w))) =
             filter is_insert (trace w) @ [Insert ''stream_data'' (asdict d)]"
proof -
  let ?d = "\<lparr>stream_id = a, frame_id = b, device_id = c, timestamp = t, timeout = u,
             image_data = i,
             metadata = (case map_of kvs ''metadata'' of None \<Rightarrow> JObj [] | Some m \<Rightarrow> m),
             created_at = now\<rparr>"
  have built: "build_stream_data now (JObj kvs) = Inr ?d"
    using assms by (rule build_stream_data_present)
  have "handle_data_message E now (JObj kvs) w =
      (Inr (), if fst (store_data E ?d w) = Inr True
               then emit [Log Info ''Successfully processed frame %s'' [ArgJson b]]
                      (snd (store_data E ?d w))
               else snd (store_data E ?d w))"
    using handle_data_message_built [OF built, of E w] by simp
  moreover have "filter is_insert (trace (snd (handle_data_message E now (JObj kvs) w))) =
      filter is_insert (trace w) @ [Insert ''stream_data'' (asdict ?d)]"
    by (rule handle_data_message_inserts(1) [OF built])
  ultimately show ?thesis
    using built by (intro exI [of _ ?d]) simp
qed

theorem field_types_not_checked_witness:
  "map_of untyped_fields ''timeout'' = Some (JStr ''soon'') \<and>
   map_of untyped_fields ''data'' = Some (JInt 7) \<and>
   handle_data_message demo_env ''10:00:01'' (JObj untyped_fields) demo_world =
     (Inr (), \<lparr>db = [], trace =
        [Insert ''stream_data'' (untyped_row ''10:00:01''),
         Log Error ''Error storing data: %s''
           [ArgExn (OtherError ''invalid input syntax for type integer'')],
         LogExc (OtherError ''invalid input syntax for type integer'')]\<rparr>)"
proof -
  have k1: "map_of untyped_fields ''stream_id'' = Some (JInt 1)"
    and k2: "map_of untyped_fields ''frame_id'' = Some JNull"
    and k3: "map_of untyped_fields ''device_id'' = Some (JArr [])"
    and k4: "map_of untyped_fields ''timestamp'' = Some (JBool True)"
    and k5: "map_of untyped_fields ''timeout'' = Some (JStr ''soon'')"
    and k6: "map_of untyped_fields ''data'' = Some (JInt 7)"
    by (simp_all add: untyped_fields_def)
  have row: "asdict \<lparr>stream_id = JInt 1, frame_id = JNull, device_id = JArr [],
       timestamp = JBool True, timeout = JStr ''soon'', image_data = JInt 7, metadata = JObj [],
       created_at = ''10:00:01''\<rparr> = untyped_row ''10:00:01''"
    by (simp add: asdict_def untyped_row_def)
  from field_types_not_checked [OF k1 k2 k3 k4 k5 k6, of "''10:00:01''" demo_env demo_world]
  obtain d where d: "build_stream_data ''10:00:01'' (JObj untyped_fields) = Inr d"
    and h: "handle_data_message demo_env ''10:00:01'' (JObj untyped_fields) demo_world =
      (Inr (), if fst (store_data demo_env d demo_world) = Inr True
               then emit [Log Info ''Successfully processed frame %s'' [ArgJson JNull]]
                      (snd (store_data demo_env d demo_world))
               else snd (store_data demo_env d demo_world))"
    by blast
  from d have "d = \<lparr>stream_id = JInt 1, frame_id = JNull, device_id = JArr [],
       timestamp = JBool True, timeout = JStr ''soon'', image_data = JInt 7, metadata = JObj [],
       created_at = ''10:00:01''\<rparr>"
    by (simp add: build_untyped)
  with h k5 k6 show ?thesis
    by (simp add: store_data_cases row insert_untyped demo_world_def)
qed

end
